theory Spec2Isabelle
  imports Complex_Main
begin

section \<open>Tile coordinates\<close>

text \<open>
  The script \<^verbatim>\<open>scripts/tilestache-seed.py\<close> builds its coordinates with the class
  \<^verbatim>\<open>ModestMaps.Core.Coordinate\<close>, constructed as \<^verbatim>\<open>Coordinate(row, column, zoom)\<close>.
  The projected corners of the bounding box carry fractional rows and columns (Python
  floats, taken here as exact rationals: scaling by a power of two, rounding down and
  adding a small integer are exact on floats of this size); the coordinates handed to
  the tile backend carry integers.
\<close>

datatype 'a coordinate = Coordinate (row: 'a) (column: 'a) (zoom: int)

text \<open>
  Modelled from the spec: the methods of \<^verbatim>\<open>ModestMaps.Core.Coordinate\<close> are not part of
  the script. \<^verbatim>\<open>zoomTo\<close> projects a coordinate into the tile grid of another zoom level
  (each level doubles the grid), \<^verbatim>\<open>container\<close> takes the containing integer tile, and
  \<^verbatim>\<open>left\<close>, \<^verbatim>\<open>up\<close>, \<^verbatim>\<open>right\<close>, \<^verbatim>\<open>down\<close> move by a number of tiles.
\<close>

definition pow2 :: "int \<Rightarrow> rat" where
  "pow2 e = (if 0 \<le> e then 2 ^ nat e else 1 / 2 ^ nat (- e))"

definition zoomTo :: "rat coordinate \<Rightarrow> int \<Rightarrow> rat coordinate" where
  "zoomTo c destination =
     Coordinate (row c * pow2 (destination - zoom c))
                (column c * pow2 (destination - zoom c))
                destination"

definition container :: "rat coordinate \<Rightarrow> rat coordinate" where
  "container c = Coordinate (of_int \<lfloor>row c\<rfloor>) (of_int \<lfloor>column c\<rfloor>) (zoom c)"

definition up :: "rat coordinate \<Rightarrow> int \<Rightarrow> rat coordinate" where
  "up c distance = Coordinate (row c - of_int distance) (column c) (zoom c)"

definition down :: "rat coordinate \<Rightarrow> int \<Rightarrow> rat coordinate" where
  "down c distance = Coordinate (row c + of_int distance) (column c) (zoom c)"

definition left :: "rat coordinate \<Rightarrow> int \<Rightarrow> rat coordinate" where
  "left c distance = Coordinate (row c) (column c - of_int distance) (zoom c)"

definition right :: "rat coordinate \<Rightarrow> int \<Rightarrow> rat coordinate" where
  "right c distance = Coordinate (row c) (column c + of_int distance) (zoom c)"

section \<open>Python built-ins\<close>

text \<open>\<^verbatim>\<open>int(x)\<close> on a float truncates towards zero.\<close>

definition py_int :: "rat \<Rightarrow> int" where
  "py_int x = (if 0 \<le> x then \<lfloor>x\<rfloor> else \<lceil>x\<rceil>)"

text \<open>\<^verbatim>\<open>range(a, b)\<close> is \<open>a, a + 1, \<dots>, b - 1\<close>, empty when \<open>b \<le> a\<close>.\<close>

definition py_range :: "int \<Rightarrow> int \<Rightarrow> int list" where
  "py_range a b = [a..b - 1]"

section \<open>Coordinate sources\<close>

text \<open>A seed item is the tuple \<^verbatim>\<open>(offset, count, coord)\<close> that every source yields.\<close>

type_synonym seed_item = "int \<times> int \<times> int coordinate"

subsection \<open>Flood fill: \<^verbatim>\<open>generateCoordinates\<close>\<close>

text \<open>
  The two padded corner tiles \<^verbatim>\<open>ul_\<close> and \<^verbatim>\<open>lr_\<close>, computed alike in both loops of the
  generator (written \<open>ul'\<close> and \<open>lr'\<close> below). The loop variables \<^verbatim>\<open>zoom\<close>, \<^verbatim>\<open>row\<close> and
  \<^verbatim>\<open>column\<close> are written \<open>z\<close>, \<open>r\<close> and \<open>c\<close>, the longer names being the attributes of a
  coordinate.
\<close>

definition padded_ul :: "rat coordinate \<Rightarrow> int \<Rightarrow> int \<Rightarrow> rat coordinate" where
  "padded_ul ul z padding = up (left (container (zoomTo ul z)) padding) padding"

definition padded_lr :: "rat coordinate \<Rightarrow> int \<Rightarrow> int \<Rightarrow> rat coordinate" where
  "padded_lr lr z padding = down (right (container (zoomTo lr z)) padding) padding"

text \<open>The first loop: \<^verbatim>\<open>count += int(rows * cols)\<close> for each zoom.\<close>

fun count_loop :: "rat coordinate \<Rightarrow> rat coordinate \<Rightarrow> int \<Rightarrow> int \<Rightarrow> int list \<Rightarrow> int" where
  "count_loop ul lr padding count [] = count"
| "count_loop ul lr padding count (z # zooms) =
     (let ul' = padded_ul ul z padding;
          lr' = padded_lr lr z padding;
          rows = row lr' + 1 - row ul';
          cols = column lr' + 1 - column ul'
      in count_loop ul lr padding (count + py_int (rows * cols)) zooms)"

text \<open>
  The second loop, innermost first. Each loop takes the running \<^verbatim>\<open>offset\<close> and returns
  the items it yields together with the offset it leaves behind.
\<close>

fun column_loop :: "int \<Rightarrow> int \<Rightarrow> int \<Rightarrow> int \<Rightarrow> int list \<Rightarrow> seed_item list \<times> int" where
  "column_loop count z r offset [] = ([], offset)"
| "column_loop count z r offset (c # columns) =
     (let coord = Coordinate r c z;
          (rest, offset') = column_loop count z r (offset + 1) columns
      in ((offset, count, coord) # rest, offset'))"

fun row_loop :: "int \<Rightarrow> int \<Rightarrow> int list \<Rightarrow> int \<Rightarrow> int list \<Rightarrow> seed_item list \<times> int" where
  "row_loop count z columns offset [] = ([], offset)"
| "row_loop count z columns offset (r # rows) =
     (let (items, offset') = column_loop count z r offset columns;
          (rest, offset'') = row_loop count z columns offset' rows
      in (items @ rest, offset''))"

fun zoom_loop ::
  "rat coordinate \<Rightarrow> rat coordinate \<Rightarrow> int \<Rightarrow> int \<Rightarrow> int \<Rightarrow> int list \<Rightarrow> seed_item list \<times> int" where
  "zoom_loop ul lr padding count offset [] = ([], offset)"
| "zoom_loop ul lr padding count offset (z # zooms) =
     (let ul' = padded_ul ul z padding;
          lr' = padded_lr lr z padding;
          (items, offset') =
             row_loop count z
               (py_range (py_int (column ul')) (py_int (column lr' + 1)))
               offset
               (py_range (py_int (row ul')) (py_int (row lr' + 1)));
          (rest, offset'') = zoom_loop ul lr padding count offset' zooms
      in (items @ rest, offset''))"

definition generateCoordinates ::
  "rat coordinate \<Rightarrow> rat coordinate \<Rightarrow> int list \<Rightarrow> int \<Rightarrow> seed_item list" where
  "generateCoordinates ul lr zooms padding =
     (let count = count_loop ul lr padding 0 zooms
      in fst (zoom_loop ul lr padding count 0 zooms))"


subsection \<open>The spans and the order of the flood fill\<close>

text \<open>
  The row span and the column span of a zoom level: the expressions \<^verbatim>\<open>rows\<close> and \<^verbatim>\<open>cols\<close>
  of the generator, the inclusive spans between the padded corner tiles.
\<close>

definition rows_span :: "rat coordinate \<Rightarrow> rat coordinate \<Rightarrow> int \<Rightarrow> int \<Rightarrow> rat" where
  "rows_span ul lr z padding = row (padded_lr lr z padding) + 1 - row (padded_ul ul z padding)"

definition cols_span :: "rat coordinate \<Rightarrow> rat coordinate \<Rightarrow> int \<Rightarrow> int \<Rightarrow> rat" where
  "cols_span ul lr z padding =
     column (padded_lr lr z padding) + 1 - column (padded_ul ul z padding)"

text \<open>
  The tiles of one zoom level in the order of the specification: rows ascending as the
  outer loop, columns ascending as the inner loop.
\<close>

definition flood_tiles ::
  "rat coordinate \<Rightarrow> rat coordinate \<Rightarrow> int \<Rightarrow> int \<Rightarrow> int coordinate list" where
  "flood_tiles ul lr padding z =
     concat (map (\<lambda>r. map (\<lambda>c. Coordinate r c z)
                          (py_range (py_int (column (padded_ul ul z padding)))
                                    (py_int (column (padded_lr lr z padding) + 1))))
                 (py_range (py_int (row (padded_ul ul z padding)))
                           (py_int (row (padded_lr lr z padding) + 1))))"

text \<open>
  The north-west corner is given as such: at zoom \<open>z\<close> its tile is neither below nor to
  the right of the tile of the south-east corner.
\<close>

definition corners_ordered :: "rat coordinate \<Rightarrow> rat coordinate \<Rightarrow> int \<Rightarrow> bool" where
  "corners_ordered ul lr z =
     (row (container (zoomTo ul z)) \<le> row (container (zoomTo lr z)) \<and>
      column (container (zoomTo ul z)) \<le> column (container (zoomTo lr z)))"

text \<open>
  The other two sources number a finished list:
  \<^verbatim>\<open>for (offset, coord) in enumerate(coords): yield (offset, count, coord)\<close>.
\<close>

fun yield_enumerated :: "int \<Rightarrow> int \<Rightarrow> 'a list \<Rightarrow> (int \<times> int \<times> 'a) list" where
  "yield_enumerated offset count [] = []"
| "yield_enumerated offset count (coord # coords) =
     (offset, count, coord) # yield_enumerated (offset + 1) count coords"

text \<open>
  A stream whose offsets are \<open>0, 1, \<dots>\<close> without gap or repeat and whose items all carry
  the total \<open>t\<close>; it is counted when \<open>t\<close> is the number of its items.
\<close>

definition numbered_with :: "int \<Rightarrow> (int \<times> int \<times> 'a) list \<Rightarrow> bool" where
  "numbered_with t items =
     (map fst items = map int [0..<length items] \<and> list_all (\<lambda>item. fst (snd item) = t) items)"

definition counted :: "(int \<times> int \<times> 'a) list \<Rightarrow> bool" where
  "counted items = numbered_with (int (length items)) items"

subsection \<open>Strings: \<^verbatim>\<open>%d\<close>, \<^verbatim>\<open>strip\<close>, \<^verbatim>\<open>split\<close>, \<^verbatim>\<open>int\<close>, \<^verbatim>\<open>isdigit\<close> and the lines of a file\<close>

definition digit_char :: "nat \<Rightarrow> char" where
  "digit_char d = ''0123456789'' ! d"

function str_nat :: "nat \<Rightarrow> string" where
  "str_nat n = (if n < 10 then [digit_char n] else str_nat (n div 10) @ [digit_char (n mod 10)])"
  by pat_completeness auto
termination
  by (relation "measure id") auto

declare str_nat.simps [simp del]

text \<open>The format \<^verbatim>\<open>%d\<close> applied to an integer.\<close>

definition str_int :: "int \<Rightarrow> string" where
  "str_int i = (if i < 0 then CHR ''-'' # str_nat (nat (- i)) else str_nat (nat i))"

definition digit_val :: "char \<Rightarrow> nat option" where
  "digit_val c = map_of
     [(CHR ''0'', 0), (CHR ''1'', 1), (CHR ''2'', 2), (CHR ''3'', 3), (CHR ''4'', 4),
      (CHR ''5'', 5), (CHR ''6'', 6), (CHR ''7'', 7), (CHR ''8'', 8), (CHR ''9'', 9)] c"

definition isdigit_char :: "char \<Rightarrow> bool" where
  "isdigit_char c = (digit_val c \<noteq> None)"

text \<open>\<^verbatim>\<open>s.isdigit()\<close>: the string is not empty and all its characters are digits.\<close>

definition isdigit :: "string \<Rightarrow> bool" where
  "isdigit s = (s \<noteq> [] \<and> list_all isdigit_char s)"

text \<open>Space, tab, line feed, carriage return, vertical tab and form feed.\<close>

definition isspace :: "char \<Rightarrow> bool" where
  "isspace c = (c \<in> set [CHR '' '', CHR 0x09, CHR 0x0A, CHR 0x0D, CHR 0x0B, CHR 0x0C])"

definition strip :: "string \<Rightarrow> string" where
  "strip s = rev (dropWhile isspace (rev (dropWhile isspace s)))"

fun split_acc :: "char \<Rightarrow> string \<Rightarrow> string \<Rightarrow> string list" where
  "split_acc sep cur [] = [cur]"
| "split_acc sep cur (c # cs) =
     (if c = sep then cur # split_acc sep [] cs else split_acc sep (cur @ [c]) cs)"

text \<open>\<^verbatim>\<open>s.split(sep)\<close> for a separator of one character: always at least one field.\<close>

definition split :: "string \<Rightarrow> char \<Rightarrow> string list" where
  "split s sep = split_acc sep [] s"

fun lines_acc :: "string \<Rightarrow> string \<Rightarrow> string list" where
  "lines_acc cur [] = (if cur = [] then [] else [cur])"
| "lines_acc cur (c # cs) =
     (if c = CHR 0x0A then (cur @ [c]) # lines_acc [] cs else lines_acc (cur @ [c]) cs)"

text \<open>
  Iterating over an open text file yields its lines, each with its line feed; a last
  line without one is yielded as it is.
\<close>

definition file_lines :: "string \<Rightarrow> string list" where
  "file_lines content = lines_acc [] content"

datatype known_unknown =
    MissingConfig
  | MissingLayer
  | UnknownLayer string
  | InvalidZoom string
  | NegativePadding

text \<open>
  The exceptions of the script. \<^verbatim>\<open>KnownUnknown\<close> carries its cause in place of the text of
  its message; \<open>TileError\<close> stands for whatever the tile backend raises.
\<close>

datatype error =
    KnownUnknown known_unknown
  | ValueError
  | NameError string
  | IndexError
  | IOError
  | TileError string

text \<open>
  \<^verbatim>\<open>int(s)\<close> on a string, as Python 2 parses it: white space around the number and between
  the sign and the digits is skipped, the sign is optional, at least one decimal digit
  is required and nothing else may follow.
\<close>

definition digits_value :: "string \<Rightarrow> nat" where
  "digits_value ds = foldl (\<lambda>acc c. 10 * acc + the (digit_val c)) 0 ds"

definition int_of_str :: "string \<Rightarrow> error + int" where
  "int_of_str s =
     (let s1 = dropWhile isspace s;
          (negative, s2) = (case s1 of
                              c # cs \<Rightarrow> if c = CHR ''-'' then (True, cs)
                                        else if c = CHR ''+'' then (False, cs)
                                        else (False, s1)
                            | [] \<Rightarrow> (False, s1));
          s3 = dropWhile isspace s2;
          ds = takeWhile isdigit_char s3;
          rest = dropWhile isspace (dropWhile isdigit_char s3)
      in if ds = [] \<or> rest \<noteq> [] then Inl ValueError
         else Inr (if negative then - int (digits_value ds) else int (digits_value ds)))"

subsection \<open>Explicit list: \<^verbatim>\<open>listCoordinates\<close>\<close>

text \<open>
  One line of the file: \<^verbatim>\<open>line.strip().split('/')\<close>, unpacked as
  \<^verbatim>\<open>(zoom, column, row)\<close> (a \<^verbatim>\<open>ValueError\<close> unless there are three fields), converted by
  \<^verbatim>\<open>map(int, (row, column, zoom))\<close> and passed to \<^verbatim>\<open>Coordinate\<close>.
\<close>

definition parse_line :: "string \<Rightarrow> error + int coordinate" where
  "parse_line line =
     (case split (strip line) CHR ''/'' of
        [zoom_s, column_s, row_s] \<Rightarrow>
          (case int_of_str row_s of
             Inl e \<Rightarrow> Inl e
           | Inr r \<Rightarrow>
               (case int_of_str column_s of
                  Inl e \<Rightarrow> Inl e
                | Inr c \<Rightarrow>
                    (case int_of_str zoom_s of
                       Inl e \<Rightarrow> Inl e
                     | Inr z \<Rightarrow> Inr (Coordinate r c z))))
      | _ \<Rightarrow> Inl ValueError)"

text \<open>The list comprehension over all lines stops at the first line that raises.\<close>

fun parse_lines :: "string list \<Rightarrow> error + int coordinate list" where
  "parse_lines [] = Inr []"
| "parse_lines (line # rest) =
     (case parse_line line of
        Inl e \<Rightarrow> Inl e
      | Inr coord \<Rightarrow>
          (case parse_lines rest of
             Inl e \<Rightarrow> Inl e
           | Inr coords \<Rightarrow> Inr (coord # coords)))"

text \<open>
  \<^verbatim>\<open>listCoordinates\<close>, on the content of the file it opens. The list is complete, and
  counted, before the first item is yielded.
\<close>

definition listCoordinates :: "string \<Rightarrow> error + seed_item list" where
  "listCoordinates content =
     (case parse_lines (file_lines content) of
        Inl e \<Rightarrow> Inl e
      | Inr coords \<Rightarrow>
          (let count = int (length coords)
           in Inr (yield_enumerated 0 count coords)))"

subsection \<open>Tileset: \<^verbatim>\<open>tilesetCoordinates\<close>\<close>

text \<open>
  \<^verbatim>\<open>tilesetCoordinates\<close>, on the list that \<^verbatim>\<open>MBTiles.list_tiles(filename)\<close> returns; that
  function is not part of the script.
\<close>

definition tilesetCoordinates :: "int coordinate list \<Rightarrow> seed_item list" where
  "tilesetCoordinates coords =
     (let count = int (length coords)
      in yield_enumerated 0 count coords)"


section \<open>The command line and its checks\<close>

text \<open>
  The options that \<^verbatim>\<open>parser.parse_args()\<close> returns, with the defaults filled in. An option
  that was not given is \<open>None\<close>. (\<^verbatim>\<open>--include-path\<close> only extends the module search path and
  is left out.) The bounding box is \<^verbatim>\<open>(lat1, lon1, lat2, lon2)\<close>.
\<close>

record options =
  config :: "string option"
  layer :: "string option"
  bbox :: "rat \<times> rat \<times> rat \<times> rat"
  padding :: int
  extension :: string
  progressfile :: "string option"
  verbose :: bool
  outputdirectory :: "string option"
  mbtiles_output :: "string option"
  mbtiles_input :: "string option"
  tile_list :: "string option"
  error_list :: "string option"
  enable_retries :: bool
  ignore_cached :: bool

text \<open>Python's truth value of an optional string: \<^verbatim>\<open>None\<close> and \<^verbatim>\<open>''\<close> are false.\<close>

definition truthy :: "string option \<Rightarrow> bool" where
  "truthy s = (case s of None \<Rightarrow> False | Some v \<Rightarrow> v \<noteq> [])"

text \<open>\<^verbatim>\<open>a or b\<close> on an optional string and a string.\<close>

definition or_else :: "string option \<Rightarrow> string \<Rightarrow> string" where
  "or_else a b = (case a of None \<Rightarrow> b | Some v \<Rightarrow> if v \<noteq> [] then v else b)"

text \<open>
  A layer is known to the script by its name (\<^verbatim>\<open>layer.name()\<close>, the key under which the
  configuration holds it) and by its projection, whose \<^verbatim>\<open>locationCoordinate\<close> maps a
  location \<^verbatim>\<open>(lat, lon)\<close> to a coordinate.
\<close>

type_synonym projection = "rat \<times> rat \<Rightarrow> rat coordinate"

record tile_layer =
  layer_name :: string
  locationCoordinate :: projection

text \<open>
  A tile backend: \<^verbatim>\<open>getTile(layer, coord, extension, ignore_cached)\<close> returns
  \<^verbatim>\<open>(mimetype, content)\<close> or raises, and may change the state \<open>'b\<close> of the cache and the
  provider behind it.
\<close>

type_synonym 'b tile_backend =
  "'b \<Rightarrow> string \<Rightarrow> int coordinate \<Rightarrow> string \<Rightarrow> bool \<Rightarrow> (error + string \<times> string) \<times> 'b"

text \<open>
  The collaborators of the script, none of them part of it: the configuration parser
  (the layers of a configuration file, by name), the spherical mercator projection of
  the layer made up for a tileset, the format and the tile list of a tileset, the content
  of a text file, and the tile backend.
\<close>

record 'b env =
  parseConfigfile :: "string \<Rightarrow> error + (string \<rightharpoonup> projection)"
  sphericalMercator :: projection
  tileset_format :: "string \<Rightarrow> string option"
  list_tiles :: "string \<Rightarrow> int coordinate list"
  read_file :: "string \<Rightarrow> string option"
  getTile :: "'b tile_backend"

text \<open>
  The corners of the bounding box, whatever the order the two points were given in:
  \<^verbatim>\<open>south, west = min(lat1, lat2), min(lon1, lon2)\<close> and
  \<^verbatim>\<open>north, east = max(lat1, lat2), max(lon1, lon2)\<close>. The result is
  \<open>(south, west, north, east)\<close>. The floats of the command line are taken as rationals,
  on which \<^verbatim>\<open>min\<close> and \<^verbatim>\<open>max\<close> are those of a linear order; a NaN, which compares false
  with every number, is outside this model.
\<close>

definition normalize_bbox :: "rat \<times> rat \<times> rat \<times> rat \<Rightarrow> rat \<times> rat \<times> rat \<times> rat" where
  "normalize_bbox b =
     (case b of (lat1, lon1, lat2, lon2) \<Rightarrow>
        (let south = min lat1 lat2; west = min lon1 lon2;
             north = max lat1 lat2; east = max lon1 lon2
         in (south, west, north, east)))"

text \<open>
  The zoom levels of the command line: each must be a string of digits, and is replaced
  by its value.
\<close>

fun convert_zooms :: "string list \<Rightarrow> error + int list" where
  "convert_zooms [] = Inr []"
| "convert_zooms (zoom_s # zooms) =
     (if \<not> isdigit zoom_s then Inl (KnownUnknown (InvalidZoom zoom_s))
      else (case int_of_str zoom_s of
              Inl e \<Rightarrow> Inl e
            | Inr z \<Rightarrow>
                (case convert_zooms zooms of
                   Inl e \<Rightarrow> Inl e
                 | Inr zs \<Rightarrow> Inr (z # zs))))"

text \<open>What the checks leave behind for the seeding loop.\<close>

record job =
  job_layer :: tile_layer
  job_extension :: string
  job_ul :: "rat coordinate"
  job_lr :: "rat coordinate"
  job_zooms :: "int list"
  job_padding :: int
  job_tile_list :: "string option"
  job_error_list :: "string option"

text \<open>The layer: made up when tiles go from a tileset to a directory or tileset, else
  looked up in the configuration.\<close>

definition choose_layer :: "'b env \<Rightarrow> options \<Rightarrow> error + tile_layer" where
  "choose_layer env options =
     (let has_fake_destination = (truthy (outputdirectory options) \<or> truthy (mbtiles_output options));
          has_fake_source = truthy (mbtiles_input options)
      in if has_fake_destination \<and> has_fake_source
         then Inr \<lparr>layer_name = or_else (layer options) ''tiles-layer'',
                   locationCoordinate = sphericalMercator env\<rparr>
         else (case config options of
                 None \<Rightarrow> Inl (KnownUnknown MissingConfig)
               | Some config_path \<Rightarrow>
                   (case layer options of
                      None \<Rightarrow> Inl (KnownUnknown MissingLayer)
                    | Some name \<Rightarrow>
                        (case parseConfigfile env config_path of
                           Inl e \<Rightarrow> Inl e
                         | Inr layers \<Rightarrow>
                             (case layers name of
                                None \<Rightarrow> Inl (KnownUnknown (UnknownLayer name))
                              | Some proj \<Rightarrow>
                                  Inr \<lparr>layer_name = name, locationCoordinate = proj\<rparr>)))))"

text \<open>
  The \<^verbatim>\<open>try\<close> block of the script, in its order. Both branches that build an MBTiles
  cache read the variable \<^verbatim>\<open>extension\<close> before its first assignment. A \<^verbatim>\<open>KnownUnknown\<close>
  ends the run through \<^verbatim>\<open>parser.error\<close>; any other exception ends it as it is.
\<close>

definition configure :: "'b env \<Rightarrow> options \<Rightarrow> string list \<Rightarrow> error + job" where
  "configure env options zooms =
     (case choose_layer env options of
        Inl e \<Rightarrow> Inl e
      | Inr layer' \<Rightarrow>
          if truthy (mbtiles_output options) then Inl (NameError ''extension'')
          else
            (let extension' =
                   (if truthy (mbtiles_input options)
                    then or_else (tileset_format env (or_else (mbtiles_input options) []))
                                 (extension options)
                    else extension options);
                 (south, west, north, east) = normalize_bbox (bbox options);
                 northwest = (north, west);
                 southeast = (south, east);
                 ul = locationCoordinate layer' northwest;
                 lr = locationCoordinate layer' southeast
             in (case convert_zooms zooms of
                   Inl e \<Rightarrow> Inl e
                 | Inr zooms' \<Rightarrow>
                     if padding options < 0 then Inl (KnownUnknown NegativePadding)
                     else Inr \<lparr>job_layer = layer', job_extension = extension',
                               job_ul = ul, job_lr = lr, job_zooms = zooms',
                               job_padding = padding options,
                               job_tile_list = tile_list options,
                               job_error_list = error_list options\<rparr>)))"

section \<open>The seeding loop\<close>

text \<open>
  What the loop changes: the state of the tile backend, the file named by
  \<^verbatim>\<open>--error-list\<close> (its content, appended to) and the file named by \<^verbatim>\<open>--progress-file\<close>
  (the dictionary last dumped into it, \<open>None\<close> before the first write); the two are taken
  to be different files. The field \<open>fetched\<close> is a log kept for the proofs: the coordinate
  of every call of \<^verbatim>\<open>getTile\<close>, in order.
\<close>

datatype pyval = PyStr string | PyInt int

type_synonym progress = "string \<rightharpoonup> pyval"

record 'b world =
  backend :: 'b
  fetched :: "int coordinate list"
  error_sink :: string
  progress_file :: "progress option"

definition tile_path :: "string \<Rightarrow> int coordinate \<Rightarrow> string \<Rightarrow> string" where
  "tile_path name coord ext =
     name @ ''/'' @ str_int (zoom coord) @ ''/'' @ str_int (column coord) @ ''/''
       @ str_int (row coord) @ ''.'' @ ext"

definition error_line :: "int coordinate \<Rightarrow> string" where
  "error_line coord =
     str_int (zoom coord) @ ''/'' @ str_int (column coord) @ ''/'' @ str_int (row coord)
       @ [CHR 0x0A]"

text \<open>How the \<^verbatim>\<open>while\<close> loop is left.\<close>

datatype loop_exit = Rendered | Break | Raised error

text \<open>
  The loop \<^verbatim>\<open>while not rendered\<close>, entered with \<^verbatim>\<open>rendered = False\<close>. Printing to
  \<^verbatim>\<open>stderr\<close> is left out, except that the message of a failure indexes the list
  \<^verbatim>\<open>['no', 'once', 'twice']\<close> with \<^verbatim>\<open>attempts\<close>, which raises outside \<open>-3, \<dots>, 2\<close>. Nothing in
  the loop itself bounds the number of its rounds, so that its result is optional:
  \<open>None\<close> stands for a loop that never ends.
\<close>

partial_function (option) fetch_loop ::
  "'b tile_backend \<Rightarrow> options \<Rightarrow> job \<Rightarrow> int coordinate \<Rightarrow> int \<Rightarrow> progress \<Rightarrow> 'b world
     \<Rightarrow> (loop_exit \<times> progress \<times> 'b world) option" where
  "fetch_loop get_tile options jb coord attempts progress w =
     (case get_tile (backend w) (layer_name (job_layer jb)) coord (job_extension jb)
             (ignore_cached options) of
        (Inr (mimetype, content), b') \<Rightarrow>
          Some (Rendered,
                progress(''size'' \<mapsto> PyStr (str_int (int (length content) div 1024) @ ''KB'')),
                w\<lparr>backend := b', fetched := fetched w @ [coord]\<rparr>)
      | (Inl e, b') \<Rightarrow>
          (let attempts' = attempts - 1;
               w' = w\<lparr>backend := b', fetched := fetched w @ [coord]\<rparr>
           in if verbose options \<and> \<not> (- 3 \<le> attempts' \<and> attempts' < 3)
              then Some (Raised IndexError, progress, w')
              else if attempts' = 0
                   then (if \<not> truthy (job_error_list jb)
                         then Some (Raised e, progress, w')
                         else Some (Break, progress,
                                    w'\<lparr>error_sink := error_sink w' @ error_line coord\<rparr>))
                   else fetch_loop get_tile options jb coord attempts' progress w'))"

declare fetch_loop.simps [code]

text \<open>How the run ends: at the end of the loop, or with an exception.\<close>

datatype ending = Finished | Failed error

text \<open>The body of the \<^verbatim>\<open>for\<close> loop, for one item.\<close>

definition seed_tile ::
  "'b tile_backend \<Rightarrow> options \<Rightarrow> job \<Rightarrow> seed_item \<Rightarrow> 'b world \<Rightarrow> (ending \<times> 'b world) option" where
  "seed_tile get_tile options jb item w =
     (case item of (offset, count, coord) \<Rightarrow>
        (let path = tile_path (layer_name (job_layer jb)) coord (job_extension jb);
             progress = [''tile'' \<mapsto> PyStr path,
                         ''offset'' \<mapsto> PyInt (offset + 1),
                         ''total'' \<mapsto> PyInt count];
             attempts = (if enable_retries options then 3 else 1)
         in (case fetch_loop get_tile options jb coord attempts progress w of
               None \<Rightarrow> None
             | Some (Raised e, progress', w') \<Rightarrow> Some (Failed e, w')
             | Some (_, progress', w') \<Rightarrow>
                 Some (Finished,
                       if truthy (progressfile options)
                       then w'\<lparr>progress_file := Some progress'\<rparr>
                       else w'))))"

fun seed_loop ::
  "'b tile_backend \<Rightarrow> options \<Rightarrow> job \<Rightarrow> 'b world \<Rightarrow> seed_item list \<Rightarrow> (ending \<times> 'b world) option" where
  "seed_loop get_tile options jb w [] = Some (Finished, w)"
| "seed_loop get_tile options jb w (item # items) =
     (case seed_tile get_tile options jb item w of
        None \<Rightarrow> None
      | Some (Failed e, w') \<Rightarrow> Some (Failed e, w')
      | Some (Finished, w') \<Rightarrow> seed_loop get_tile options jb w' items)"

text \<open>
  The choice of the coordinate source; \<^verbatim>\<open>list(coordinates)\<close> runs the generator to its end,
  so that a line of the tile list that does not parse raises here.
\<close>

definition choose_coordinates :: "'b env \<Rightarrow> options \<Rightarrow> job \<Rightarrow> error + seed_item list" where
  "choose_coordinates env options jb =
     (if truthy (job_tile_list jb)
      then (case read_file env (or_else (job_tile_list jb) []) of
              None \<Rightarrow> Inl IOError
            | Some content \<Rightarrow> listCoordinates content)
      else if truthy (mbtiles_input options)
      then Inr (tilesetCoordinates (list_tiles env (or_else (mbtiles_input options) [])))
      else Inr (generateCoordinates (job_ul jb) (job_lr jb) (job_zooms jb) (job_padding jb)))"

text \<open>The script, from the parsed command line on.\<close>

definition main ::
  "'b env \<Rightarrow> options \<Rightarrow> string list \<Rightarrow> 'b world \<Rightarrow> (ending \<times> 'b world) option" where
  "main env options zooms w =
     (case configure env options zooms of
        Inl e \<Rightarrow> Some (Failed e, w)
      | Inr jb \<Rightarrow>
          (case choose_coordinates env options jb of
             Inl e \<Rightarrow> Some (Failed e, w)
           | Inr coordinates \<Rightarrow>
               seed_loop (getTile env) options jb w (take 10 coordinates)))"


section \<open>The retry policy of the specification\<close>

text \<open>The attempt budget of an item: \<^verbatim>\<open>options.enable_retries and 3 or 1\<close>.\<close>

definition budget :: "options \<Rightarrow> nat" where
  "budget options = (if enable_retries options then 3 else 1)"

text \<open>
  The retry policy in the words of the specification: attempt the fetch; on success
  stop; on failure retry while further attempts remain. With \<open>n\<close> further attempts the
  result is the number of attempts made, the outcome of the last one and the state of
  the backend after it.
\<close>

fun attempt_run ::
  "'b tile_backend \<Rightarrow> string \<Rightarrow> int coordinate \<Rightarrow> string \<Rightarrow> bool \<Rightarrow> nat \<Rightarrow> 'b
     \<Rightarrow> nat \<times> (error + string \<times> string) \<times> 'b" where
  "attempt_run get_tile name coord ext ic n b =
     (case get_tile b name coord ext ic of
        (Inr r, b') \<Rightarrow> (1, Inr r, b')
      | (Inl e, b') \<Rightarrow>
          (case n of
             0 \<Rightarrow> (1, Inl e, b')
           | Suc m \<Rightarrow>
               (case attempt_run get_tile name coord ext ic m b' of
                  (k, res, b'') \<Rightarrow> (Suc k, res, b''))))"

declare attempt_run.simps [simp del]

section \<open>The characters of a tile list\<close>

text \<open>The characters of a number printed by \<^verbatim>\<open>%d\<close>: digits and the minus sign.\<close>

definition plain :: "char \<Rightarrow> bool" where
  "plain c = (c \<in> set ''-0123456789'')"

section \<open>A sample run\<close>

text \<open>
  A command line and collaborators on which the theorems below are exercised: a
  configuration with the one layer \<^verbatim>\<open>osm\<close>, whose projection is linear in latitude and
  longitude, and a bounding box given with its corners in the order south-east,
  north-west.
\<close>

definition sample_projection :: projection where
  "sample_projection loc =
     (case loc of (lat, lon) \<Rightarrow> Coordinate ((90 - lat) / 180) ((lon + 180) / 360) 0)"

definition sample_options :: options where
  "sample_options =
     \<lparr>config = Some ''tilestache.cfg'', layer = Some ''osm'', bbox = (0, 90, 45, 0),
      padding = 0, extension = ''png'', progressfile = Some ''progress.json'',
      verbose = True, outputdirectory = None, mbtiles_output = None, mbtiles_input = None,
      tile_list = None, error_list = Some ''errors.txt'', enable_retries = True,
      ignore_cached = False\<rparr>"

text \<open>
  Three backends whose state counts the calls made: one that always fails, one that
  fails twice and succeeds from then on with a tile of 2048 bytes, one that always
  succeeds.
\<close>

definition failing_backend :: "nat tile_backend" where
  "failing_backend n name coord ext ic = (Inl (TileError ''no tile''), n + 1)"

definition flaky_backend :: "nat tile_backend" where
  "flaky_backend n name coord ext ic =
     (if n < 2 then Inl (TileError ''no tile'')
      else Inr (''image/png'', replicate 2048 (CHR ''x'')), n + 1)"

definition working_backend :: "nat tile_backend" where
  "working_backend n name coord ext ic = (Inr (''image/png'', replicate 2048 (CHR ''x'')), n + 1)"

definition sample_env :: "nat tile_backend \<Rightarrow> nat env" where
  "sample_env get_tile =
     \<lparr>parseConfigfile = (\<lambda>path. Inr [''osm'' \<mapsto> sample_projection]),
      sphericalMercator = sample_projection,
      tileset_format = (\<lambda>path. Some ''png''),
      list_tiles = (\<lambda>path. []),
      read_file = (\<lambda>path. None),
      getTile = get_tile\<rparr>"

definition sample_world :: "nat world" where
  "sample_world = \<lparr>backend = 0, fetched = [], error_sink = [], progress_file = None\<rparr>"

definition sample_job :: job where
  "sample_job =
     \<lparr>job_layer = \<lparr>layer_name = ''osm'', locationCoordinate = sample_projection\<rparr>,
      job_extension = ''png'',
      job_ul = Coordinate (1 / 4) (1 / 2) 0,
      job_lr = Coordinate (1 / 2) (3 / 4) 0,
      job_zooms = [2, 3],
      job_padding = 0,
      job_tile_list = None,
      job_error_list = Some ''errors.txt''\<rparr>"

section \<open>The flood fill: both loops in closed form\<close>

lemma yield_enumerated_append:
  "yield_enumerated offset count (xs @ ys) =
     yield_enumerated offset count xs @ yield_enumerated (offset + int (length xs)) count ys"
  by (induction xs arbitrary: offset) (auto simp: algebra_simps)

lemma length_yield_enumerated [simp]: "length (yield_enumerated offset count xs) = length xs"
  by (induction xs arbitrary: offset) auto

lemma column_loop_eq:
  "column_loop count z r offset columns =
     (yield_enumerated offset count (map (\<lambda>c. Coordinate r c z) columns),
      offset + int (length columns))"
  by (induction columns arbitrary: offset) (auto simp: algebra_simps)

lemma row_loop_eq:
  "row_loop count z columns offset rows =
     (yield_enumerated offset count (concat (map (\<lambda>r. map (\<lambda>c. Coordinate r c z) columns) rows)),
      offset + int (length (concat (map (\<lambda>r. map (\<lambda>c. Coordinate r c z) columns) rows))))"
  by (induction rows arbitrary: offset)
     (auto simp: column_loop_eq yield_enumerated_append algebra_simps)

lemma zoom_loop_eq:
  "zoom_loop ul lr p count offset zooms =
     (yield_enumerated offset count (concat (map (flood_tiles ul lr p) zooms)),
      offset + int (length (concat (map (flood_tiles ul lr p) zooms))))"
  by (induction zooms arbitrary: offset)
     (auto simp: row_loop_eq yield_enumerated_append flood_tiles_def Let_def algebra_simps)

lemma generateCoordinates_eq:
  "generateCoordinates ul lr zooms p =
     yield_enumerated 0 (count_loop ul lr p 0 zooms)
       (concat (map (flood_tiles ul lr p) zooms))"
  by (simp add: generateCoordinates_def zoom_loop_eq)

lemma map_fst_yield_enumerated:
  "map fst (yield_enumerated offset count xs) = map (\<lambda>i. offset + int i) [0..<length xs]"
proof (induction xs arbitrary: offset)
  case Nil
  show ?case by simp
next
  case (Cons x xs)
  have "[0..<length (x # xs)] = 0 # map Suc [0..<length xs]"
    by (simp add: upt_conv_Cons map_Suc_upt del: upt_Suc)
  then show ?case
    by (simp add: Cons.IH comp_def algebra_simps del: upt_Suc)
qed

lemma totals_yield_enumerated:
  "list_all (\<lambda>item. fst (snd item) = count) (yield_enumerated offset count xs)"
  by (induction xs arbitrary: offset) auto

lemma numbered_with_yield_enumerated:
  "numbered_with count (yield_enumerated 0 count xs)"
  by (simp add: numbered_with_def map_fst_yield_enumerated totals_yield_enumerated)

lemma count_loop_eq:
  "count_loop ul lr p count zooms =
     count + (\<Sum>z\<leftarrow>zooms. py_int (rows_span ul lr z p * cols_span ul lr z p))"
  by (induction zooms arbitrary: count) (auto simp: rows_span_def cols_span_def Let_def)

lemma py_int_of_int [simp]: "py_int (of_int i) = i"
  by (simp add: py_int_def)

lemma rows_span_int:
  "rows_span ul lr z p = of_int (\<lfloor>row (zoomTo lr z)\<rfloor> + p + 1 - (\<lfloor>row (zoomTo ul z)\<rfloor> - p))"
  by (simp add: rows_span_def padded_lr_def padded_ul_def down_def right_def up_def left_def container_def)

lemma cols_span_int:
  "cols_span ul lr z p = of_int (\<lfloor>column (zoomTo lr z)\<rfloor> + p + 1 - (\<lfloor>column (zoomTo ul z)\<rfloor> - p))"
  by (simp add: cols_span_def padded_lr_def padded_ul_def down_def right_def up_def left_def container_def)

lemma py_int_rows_span:
  "py_int (rows_span ul lr z p) = \<lfloor>row (zoomTo lr z)\<rfloor> + p + 1 - (\<lfloor>row (zoomTo ul z)\<rfloor> - p)"
  by (subst rows_span_int) (rule py_int_of_int)

lemma py_int_cols_span:
  "py_int (cols_span ul lr z p) = \<lfloor>column (zoomTo lr z)\<rfloor> + p + 1 - (\<lfloor>column (zoomTo ul z)\<rfloor> - p)"
  by (subst cols_span_int) (rule py_int_of_int)

lemma py_int_spans:
  "py_int (rows_span ul lr z p * cols_span ul lr z p) =
     py_int (rows_span ul lr z p) * py_int (cols_span ul lr z p)"
  unfolding rows_span_int cols_span_int
  by (simp only: py_int_of_int flip: of_int_mult)

lemma rat_of_py_int_spans:
  "rat_of_int (py_int (rows_span ul lr z p * cols_span ul lr z p)) =
     rows_span ul lr z p * cols_span ul lr z p"
  unfolding rows_span_int cols_span_int
  by (subst of_int_mult [symmetric], subst py_int_of_int, rule of_int_mult)

lemma length_grid:
  "length (concat (map (\<lambda>r. map (f r) cs) rs)) = length rs * length cs"
proof (induction rs)
  case Nil
  show ?case by simp
next
  case (Cons r rs)
  have "length (concat (map (\<lambda>r. map (f r) cs) (r # rs))) =
          length cs + length (concat (map (\<lambda>r. map (f r) cs) rs))"
    by (simp only: list.map concat.simps length_append length_map)
  then show ?case using Cons.IH by simp
qed

lemma length_py_range: "length (py_range a b) = nat (b - a)"
  by (simp add: py_range_def)

lemma py_int_succ: "py_int (of_int i + 1) = i + 1"
proof -
  have "rat_of_int i + 1 = rat_of_int (i + 1)" by simp
  then show ?thesis by (simp only: py_int_of_int)
qed

lemma padded_rows:
  "row (padded_ul ul z p) = of_int (\<lfloor>row (zoomTo ul z)\<rfloor> - p)"
  "row (padded_lr lr z p) = of_int (\<lfloor>row (zoomTo lr z)\<rfloor> + p)"
  "column (padded_ul ul z p) = of_int (\<lfloor>column (zoomTo ul z)\<rfloor> - p)"
  "column (padded_lr lr z p) = of_int (\<lfloor>column (zoomTo lr z)\<rfloor> + p)"
  by (simp_all add: padded_lr_def padded_ul_def down_def right_def up_def left_def container_def)

lemma length_flood_tiles:
  "length (flood_tiles ul lr p z) =
     nat (py_int (rows_span ul lr z p)) * nat (py_int (cols_span ul lr z p))"
  unfolding flood_tiles_def length_grid length_py_range py_int_rows_span py_int_cols_span
    padded_rows py_int_succ py_int_of_int
  by (simp add: algebra_simps)

lemma spans_positive:
  assumes "0 \<le> p" and "corners_ordered ul lr z"
  shows "0 < py_int (rows_span ul lr z p)" and "0 < py_int (cols_span ul lr z p)"
  using assms unfolding py_int_rows_span py_int_cols_span corners_ordered_def container_def
  by simp_all

lemma length_tiles_total:
  assumes "0 \<le> p" and "\<forall>z\<in>set zooms. corners_ordered ul lr z"
  shows "int (length (concat (map (flood_tiles ul lr p) zooms))) = count_loop ul lr p 0 zooms"
  using assms(2)
proof (induction zooms)
  case Nil
  show ?case by simp
next
  case (Cons z zooms)
  have pos: "0 < py_int (rows_span ul lr z p)" "0 < py_int (cols_span ul lr z p)"
    using spans_positive [OF assms(1)] Cons.prems by simp_all
  have "int (length (flood_tiles ul lr p z)) =
          py_int (rows_span ul lr z p * cols_span ul lr z p)"
    using pos by (simp add: length_flood_tiles py_int_spans)
  moreover have "int (length (concat (map (flood_tiles ul lr p) zooms))) = count_loop ul lr p 0 zooms"
    using Cons by simp
  ultimately show ?case
    by (simp add: count_loop_eq)
qed

section \<open>The fetch loop and the retry policy\<close>

text \<open>
  With at most three attempts, or without the chatty output, the loop is the retry policy
  of the specification: it ends, after as many calls of the backend.
\<close>

lemma fetch_loop_run:
  assumes "\<not> verbose options \<or> n \<le> 2"
  shows "fetch_loop get_tile options jb coord (int n + 1) progress w =
     Some (case attempt_run get_tile (layer_name (job_layer jb)) coord (job_extension jb)
                  (ignore_cached options) n (backend w) of
             (k, Inr (mimetype, content), b') \<Rightarrow>
               (Rendered,
                progress(''size'' \<mapsto> PyStr (str_int (int (length content) div 1024) @ ''KB'')),
                w\<lparr>backend := b', fetched := fetched w @ replicate k coord\<rparr>)
           | (k, Inl e, b') \<Rightarrow>
               if truthy (job_error_list jb)
               then (Break, progress,
                     w\<lparr>backend := b', fetched := fetched w @ replicate k coord,
                       error_sink := error_sink w @ error_line coord\<rparr>)
               else (Raised e, progress,
                     w\<lparr>backend := b', fetched := fetched w @ replicate k coord\<rparr>))"
  using assms
proof (induction n arbitrary: w)
  case 0
  show ?case
    by (subst fetch_loop.simps, subst attempt_run.simps)
       (auto split: prod.splits sum.splits)
next
  case (Suc n)
  have v: "\<not> verbose options \<or> n \<le> 2" and r: "\<not> (verbose options \<and> \<not> (- 3 \<le> int n + 1 \<and> int n + 1 < 3))"
    using Suc.prems by auto
  show ?case
  proof (cases "get_tile (backend w) (layer_name (job_layer jb)) coord (job_extension jb) (ignore_cached options)")
    case (Pair res b')
    show ?thesis
    proof (cases res)
      case (Inr r)
      with Pair show ?thesis
        by (subst fetch_loop.simps, subst attempt_run.simps) (auto split: prod.splits)
    next
      case (Inl e)
      have step: "fetch_loop get_tile options jb coord (int (Suc n) + 1) progress w =
                    fetch_loop get_tile options jb coord (int n + 1) progress
                      (w\<lparr>backend := b', fetched := fetched w @ [coord]\<rparr>)"
        using Pair Inl r by (subst fetch_loop.simps) (auto simp add: Let_def add.commute)
      show ?thesis
        unfolding step Suc.IH [OF v]
        using Pair Inl
        by (subst (2) attempt_run.simps)
           (auto split: prod.splits sum.splits simp: replicate_append_same)
    qed
  qed
qed

lemma attempt_run_count:
  "attempt_run get_tile name coord ext ic n b = (k, res, b') \<Longrightarrow>
     1 \<le> k \<and> k \<le> n + 1 \<and> (isl res \<longrightarrow> k = n + 1)"
proof (induction n arbitrary: b k res b')
  case 0
  then show ?case
    by (subst (asm) attempt_run.simps) (auto split: prod.splits sum.splits)
next
  case (Suc n)
  from Suc.prems show ?case
    by (subst (asm) attempt_run.simps)
       (auto split: prod.splits sum.splits dest!: Suc.IH)
qed

lemma attempt_run_always_fails:
  assumes "\<forall>b. isl (fst (get_tile b name coord ext ic))"
  shows "\<exists>e b'. attempt_run get_tile name coord ext ic n b = (n + 1, Inl e, b')"
proof (induction n arbitrary: b)
  case 0
  from assms obtain e b' where "get_tile b name coord ext ic = (Inl e, b')"
    by (metis isl_def prod.collapse)
  then show ?case
    by (subst attempt_run.simps) simp
next
  case (Suc n)
  from assms obtain e b' where g: "get_tile b name coord ext ic = (Inl e, b')"
    by (metis isl_def prod.collapse)
  from Suc.IH [of b'] obtain e' b'' where
    "attempt_run get_tile name coord ext ic n b' = (n + 1, Inl e', b'')"
    by blast
  with g show ?case
    by (subst attempt_run.simps) simp
qed

lemma budget_run:
  "fetch_loop get_tile options jb coord (if enable_retries options then 3 else 1) progress w =
     fetch_loop get_tile options jb coord (int (budget options - 1) + 1) progress w"
  by (simp add: budget_def)

lemma budget_small: "\<not> verbose options \<or> budget options - 1 \<le> 2"
  by (simp add: budget_def)

text \<open>The body of the \<^verbatim>\<open>for\<close> loop in closed form.\<close>

lemma seed_tile_run:
  "seed_tile get_tile options jb (offset, count, coord) w =
     Some (case attempt_run get_tile (layer_name (job_layer jb)) coord (job_extension jb)
                  (ignore_cached options) (budget options - 1) (backend w) of
             (k, Inr (mimetype, content), b') \<Rightarrow>
               (Finished,
                w\<lparr>backend := b', fetched := fetched w @ replicate k coord,
                  progress_file :=
                    (if truthy (progressfile options)
                     then Some [''tile'' \<mapsto> PyStr (tile_path (layer_name (job_layer jb)) coord
                                                      (job_extension jb)),
                                ''offset'' \<mapsto> PyInt (offset + 1),
                                ''total'' \<mapsto> PyInt count,
                                ''size'' \<mapsto> PyStr (str_int (int (length content) div 1024) @ ''KB'')]
                     else progress_file w)\<rparr>)
           | (k, Inl e, b') \<Rightarrow>
               if truthy (job_error_list jb)
               then (Finished,
                     w\<lparr>backend := b', fetched := fetched w @ replicate k coord,
                       error_sink := error_sink w @ error_line coord,
                       progress_file :=
                         (if truthy (progressfile options)
                          then Some [''tile'' \<mapsto> PyStr (tile_path (layer_name (job_layer jb)) coord
                                                           (job_extension jb)),
                                     ''offset'' \<mapsto> PyInt (offset + 1),
                                     ''total'' \<mapsto> PyInt count]
                          else progress_file w)\<rparr>)
               else (Failed e, w\<lparr>backend := b', fetched := fetched w @ replicate k coord\<rparr>))"
  unfolding seed_tile_def prod.case Let_def budget_run fetch_loop_run [OF budget_small]
  by (auto split: prod.splits sum.splits)

section \<open>Printing and reading numbers, lines and fields\<close>

lemma isdigit_char_iff: "isdigit_char c \<longleftrightarrow> c \<in> set ''0123456789''"
  by (simp add: isdigit_char_def digit_val_def)

lemma digit_val_digit_char: "d < 10 \<Longrightarrow> digit_val (digit_char d) = Some d"
proof -
  assume "d < 10"
  then have "d \<in> {0, 1, 2, 3, 4, 5, 6, 7, 8, 9}"
    by auto
  then show ?thesis
    by (auto simp add: digit_char_def digit_val_def)
qed

lemma isdigit_digit_char: "d < 10 \<Longrightarrow> isdigit_char (digit_char d)"
  by (simp add: isdigit_char_def digit_val_digit_char)

lemma str_nat_digits: "list_all isdigit_char (str_nat n)"
proof (induction n rule: str_nat.induct)
  case (1 n)
  show ?case
  proof (cases "n < 10")
    case True
    then show ?thesis
      by (subst str_nat.simps) (simp add: isdigit_digit_char)
  next
    case False
    then show ?thesis
      using 1 by (subst str_nat.simps) (simp add: isdigit_digit_char)
  qed
qed

lemma str_nat_not_Nil: "str_nat n \<noteq> []"
  by (subst str_nat.simps) simp

lemma digits_value_snoc:
  "digits_value (ds @ [c]) = 10 * digits_value ds + the (digit_val c)"
  by (simp add: digits_value_def)

lemma digits_value_str_nat: "digits_value (str_nat n) = n"
proof (induction n rule: str_nat.induct)
  case (1 n)
  show ?case
  proof (cases "n < 10")
    case True
    then show ?thesis
      by (subst str_nat.simps) (simp add: digits_value_def digit_val_digit_char)
  next
    case False
    then have "digits_value (str_nat (n div 10)) = n div 10"
      using 1 by simp
    with False show ?thesis
      by (subst str_nat.simps) (simp add: digits_value_snoc digit_val_digit_char)
  qed
qed

lemma plain_digit: "isdigit_char c \<Longrightarrow> plain c"
  by (auto simp add: isdigit_char_iff plain_def)

lemma str_int_plain: "list_all plain (str_int i)"
  using str_nat_digits [of "nat i"] str_nat_digits [of "nat (- i)"]
  by (auto simp add: str_int_def list_all_iff plain_digit) (simp add: plain_def)

lemma plain_facts:
  assumes "plain c"
  shows "\<not> isspace c" and "c \<noteq> CHR ''/''" and "c \<noteq> CHR 0x0A"
  using assms by (auto simp add: plain_def isspace_def)

lemma digit_facts:
  assumes "isdigit_char c"
  shows "\<not> isspace c" and "c \<noteq> CHR ''-''" and "c \<noteq> CHR ''+''"
  using assms by (auto simp add: isdigit_char_iff isspace_def)

lemma int_of_digits:
  assumes "list_all isdigit_char ds" and "ds \<noteq> []"
  shows "int_of_str ds = Inr (int (digits_value ds))"
    and "int_of_str (CHR ''-'' # ds) = Inr (- int (digits_value ds))"
proof -
  obtain c cs where ds: "ds = c # cs"
    using assms(2) by (cases ds) auto
  have c: "isdigit_char c" and cs: "list_all isdigit_char cs"
    using assms(1) ds by simp_all
  have tk: "takeWhile isdigit_char cs = cs" "dropWhile isdigit_char cs = []"
    using cs by (simp_all add: list_all_iff)
  show "int_of_str ds = Inr (int (digits_value ds))"
    unfolding ds int_of_str_def
    using c digit_facts [OF c] by (simp add: Let_def tk)
  have m: "\<not> isspace (CHR ''-'')"
    by (simp add: isspace_def)
  show "int_of_str (CHR ''-'' # ds) = Inr (- int (digits_value ds))"
    unfolding ds int_of_str_def
    using c digit_facts [OF c] m by (simp add: Let_def tk)
qed

lemma int_of_str_int: "int_of_str (str_int i) = Inr i"
  using int_of_digits [OF str_nat_digits str_nat_not_Nil]
  by (simp add: str_int_def digits_value_str_nat)

lemma split_acc_field:
  "sep \<notin> set a \<Longrightarrow> split_acc sep cur (a @ sep # rest) = (cur @ a) # split_acc sep [] rest"
  by (induction a arbitrary: cur) auto

lemma split_acc_last:
  "sep \<notin> set a \<Longrightarrow> split_acc sep cur a = [cur @ a]"
  by (induction a arbitrary: cur) auto

lemma split_three:
  assumes "sep \<notin> set a" and "sep \<notin> set b" and "sep \<notin> set c"
  shows "split (a @ sep # b @ sep # c) sep = [a, b, c]"
  using assms by (simp add: split_def split_acc_field split_acc_last)

lemma lines_acc_line:
  "CHR 0x0A \<notin> set l \<Longrightarrow>
     lines_acc cur (l @ CHR 0x0A # rest) = (cur @ l @ [CHR 0x0A]) # lines_acc [] rest"
  by (induction l arbitrary: cur) auto

lemma strip_line:
  assumes "list_all (\<lambda>c. \<not> isspace c) body"
  shows "strip (body @ [CHR 0x0A]) = body"
proof (cases body rule: rev_cases)
  case Nil
  then show ?thesis
    by (simp add: strip_def isspace_def)
next
  case (snoc init l)
  have nl: "isspace (CHR 0x0A)"
    by (simp add: isspace_def)
  have l: "\<not> isspace l"
    using assms snoc by simp
  have "dropWhile isspace (body @ [CHR 0x0A]) = body @ [CHR 0x0A]"
  proof (cases body)
    case Nil
    with snoc show ?thesis by simp
  next
    case (Cons c cs)
    with assms show ?thesis by simp
  qed
  then show ?thesis
    unfolding strip_def using nl l by (simp add: snoc)
qed

lemma error_line_fields:
  "error_line (Coordinate r c z) = (str_int z @ CHR ''/'' # str_int c @ CHR ''/'' # str_int r) @ [CHR 0x0A]"
  by (simp add: error_line_def)

lemma not_in_plain:
  assumes "list_all plain s"
  shows "CHR ''/'' \<notin> set s" and "CHR 0x0A \<notin> set s" and "list_all (\<lambda>c. \<not> isspace c) s"
  using assms plain_facts by (auto simp add: list_all_iff)

lemma parse_error_line: "parse_line (error_line (Coordinate r c z)) = Inr (Coordinate r c z)"
proof -
  have sl: "\<not> isspace (CHR ''/'')"
    by (simp add: isspace_def)
  have body: "list_all (\<lambda>c. \<not> isspace c) (str_int z @ CHR ''/'' # str_int c @ CHR ''/'' # str_int r)"
    using not_in_plain(3) [OF str_int_plain] sl by simp
  show ?thesis
    unfolding parse_line_def error_line_fields strip_line [OF body]
    by (simp add: split_three not_in_plain(1) [OF str_int_plain] int_of_str_int)
qed

lemma error_line_no_feed:
  "\<exists>l. error_line coord = l @ [CHR 0x0A] \<and> CHR 0x0A \<notin> set l"
proof -
  have "CHR 0x0A \<noteq> CHR ''/''"
    by simp
  then show ?thesis
    using not_in_plain(2) [OF str_int_plain] by (simp add: error_line_def)
qed

lemma file_lines_error_lines:
  "lines_acc [] (concat (map error_line coords)) = map error_line coords"
proof (induction coords)
  case Nil
  show ?case by simp
next
  case (Cons coord coords)
  obtain l where l: "error_line coord = l @ [CHR 0x0A]" "CHR 0x0A \<notin> set l"
    using error_line_no_feed by blast
  show ?case
    using Cons.IH l(2) by (simp add: l(1) lines_acc_line)
qed

lemma parse_error_lines: "parse_lines (map error_line coords) = Inr coords"
proof (induction coords)
  case Nil
  show ?case by simp
next
  case (Cons coord coords)
  then show ?case
    by (cases coord) (simp add: parse_error_line)
qed

section \<open>Lemmas for the claims\<close>

lemma fetch_loop_ends:
  "\<exists>ex pr w' k.
     fetch_loop get_tile options jb coord (if enable_retries options then 3 else 1) progress w
       = Some (ex, pr, w')
     \<and> 1 \<le> k \<and> k \<le> budget options
     \<and> fetched w' = fetched w @ replicate k coord
     \<and> (ex = Rendered
        \<or> k = budget options
          \<and> (if truthy (job_error_list jb) then ex = Break else \<exists>e. ex = Raised e))"
proof -
  obtain k res b' where run:
    "attempt_run get_tile (layer_name (job_layer jb)) coord (job_extension jb)
       (ignore_cached options) (budget options - 1) (backend w) = (k, res, b')"
    by (metis prod_cases3)
  have k: "1 \<le> k" "k \<le> budget options" "isl res \<longrightarrow> k = budget options"
    using attempt_run_count [OF run] by (auto simp: budget_def split: if_splits)
  show ?thesis
  proof (cases res)
    case (Inl e)
    with k run show ?thesis
      unfolding budget_run fetch_loop_run [OF budget_small]
      by auto
  next
    case (Inr r)
    with k run show ?thesis
      unfolding budget_run fetch_loop_run [OF budget_small]
      by (cases r) auto
  qed
qed

lemma seed_tile_ends:
  "\<exists>e w' k. seed_tile get_tile options jb item w = Some (e, w')
     \<and> 1 \<le> k \<and> k \<le> budget options
     \<and> fetched w' = fetched w @ replicate k (snd (snd item))"
proof -
  obtain offset count coord where item: "item = (offset, count, coord)"
    by (metis prod_cases3)
  obtain k res b' where run:
    "attempt_run get_tile (layer_name (job_layer jb)) coord (job_extension jb)
       (ignore_cached options) (budget options - 1) (backend w) = (k, res, b')"
    by (metis prod_cases3)
  have k: "1 \<le> k" "k \<le> budget options"
    using attempt_run_count [OF run] by (auto simp: budget_def split: if_splits)
  show ?thesis
  proof (cases res)
    case (Inl e)
    with k run show ?thesis
      unfolding item seed_tile_run by auto
  next
    case (Inr r)
    with k run show ?thesis
      unfolding item seed_tile_run by (cases r) auto
  qed
qed

lemma seed_loop_ends:
  "\<exists>e w' ks. seed_loop get_tile options jb w items = Some (e, w')
     \<and> length ks \<le> length items
     \<and> list_all (\<lambda>k. 1 \<le> k \<and> k \<le> budget options) ks
     \<and> fetched w' =
         fetched w @ concat (map (\<lambda>(k, item). replicate k (snd (snd item))) (zip ks items))"
proof (induction items arbitrary: w)
  case Nil
  show ?case by simp
next
  case (Cons item items)
  obtain e w1 k where t: "seed_tile get_tile options jb item w = Some (e, w1)"
    and k: "1 \<le> k" "k \<le> budget options"
    and f: "fetched w1 = fetched w @ replicate k (snd (snd item))"
    using seed_tile_ends by blast
  show ?case
  proof (cases e)
    case (Failed err)
    have "seed_loop get_tile options jb w (item # items) = Some (Failed err, w1)"
      using t Failed by simp
    moreover have "length [k] \<le> length (item # items)"
      by simp
    moreover have "list_all (\<lambda>k. 1 \<le> k \<and> k \<le> budget options) [k]"
      using k by simp
    moreover have "fetched w1 =
        fetched w @ concat (map (\<lambda>(k, item). replicate k (snd (snd item))) (zip [k] (item # items)))"
      using f by simp
    ultimately show ?thesis by blast
  next
    case Finished
    from Cons.IH [of w1] obtain e' w' ks where
      l: "seed_loop get_tile options jb w1 items = Some (e', w')"
      and n: "length ks \<le> length items"
      and a: "list_all (\<lambda>k. 1 \<le> k \<and> k \<le> budget options) ks"
      and g: "fetched w' =
          fetched w1 @ concat (map (\<lambda>(k, item). replicate k (snd (snd item))) (zip ks items))"
      by blast
    have "seed_loop get_tile options jb w (item # items) = Some (e', w')"
      using t Finished l by simp
    moreover have "length (k # ks) \<le> length (item # items)"
      using n by simp
    moreover have "list_all (\<lambda>k. 1 \<le> k \<and> k \<le> budget options) (k # ks)"
      using k a by simp
    moreover have "fetched w' =
        fetched w @ concat (map (\<lambda>(k, item). replicate k (snd (snd item))) (zip (k # ks) (item # items)))"
      using f g by simp
    ultimately show ?thesis by blast
  qed
qed

lemma attempt_run_twice_then:
  assumes "get_tile b name coord ext ic = (Inl e1, b1)"
    and "get_tile b1 name coord ext ic = (Inl e2, b2)"
    and "get_tile b2 name coord ext ic = (Inr r, b3)"
  shows "attempt_run get_tile name coord ext ic 2 b = (3, Inr r, b3)"
proof -
  have 2: "attempt_run get_tile name coord ext ic 0 b2 = (1, Inr r, b3)"
    using assms(3) by (subst attempt_run.simps) simp
  have 1: "attempt_run get_tile name coord ext ic (Suc 0) b1 = (2, Inr r, b3)"
    using assms(2) 2 by (subst attempt_run.simps) simp
  have "attempt_run get_tile name coord ext ic (Suc (Suc 0)) b = (3, Inr r, b3)"
    using assms(1) 1 by (subst attempt_run.simps) simp
  then show ?thesis
    by (simp add: numeral_2_eq_2)
qed

lemma seed_tile_always_fails:
  assumes "\<forall>b. isl (fst (get_tile b (layer_name (job_layer jb)) coord (job_extension jb)
                           (ignore_cached options)))"
  shows "\<exists>e w'. seed_tile get_tile options jb (offset, count, coord) w = Some (e, w')
           \<and> fetched w' = fetched w @ replicate (budget options) coord
           \<and> (if truthy (job_error_list jb)
              then e = Finished \<and> error_sink w' = error_sink w @ error_line coord
              else (\<exists>err. e = Failed err) \<and> error_sink w' = error_sink w)"
proof -
  obtain e b' where
    "attempt_run get_tile (layer_name (job_layer jb)) coord (job_extension jb)
       (ignore_cached options) (budget options - 1) (backend w) = (budget options - 1 + 1, Inl e, b')"
    using attempt_run_always_fails
            [where get_tile = get_tile and name = "layer_name (job_layer jb)" and coord = coord
               and ext = "job_extension jb" and ic = "ignore_cached options", OF assms]
    by blast
  moreover have "budget options - 1 + 1 = budget options"
    by (simp add: budget_def)
  ultimately show ?thesis
    unfolding seed_tile_run by auto
qed

lemma error_line_sample: "error_line (Coordinate 1 2 2) = ''2/2/1'' @ [CHR 0x0A]"
  by (simp add: error_line_def str_int_def str_nat.simps digit_char_def)


lemma sample_zooms: "convert_zooms [''2'', ''3''] = Inr [2, 3]"
  by (simp add: isdigit_def isdigit_char_def digit_val_def int_of_str_def isspace_def
        digits_value_def Let_def)

lemma sample_configure:
  "configure (sample_env get_tile) sample_options [''2'', ''3''] = Inr sample_job"
  by (simp add: configure_def choose_layer_def sample_env_def sample_options_def sample_job_def
        truthy_def normalize_bbox_def Let_def sample_zooms sample_projection_def
      del: convert_zooms.simps)





lemma counted_yield_enumerated: "counted (yield_enumerated 0 (int (length xs)) xs)"
  using numbered_with_yield_enumerated [of "int (length xs)" xs]
  by (simp add: counted_def)

lemma counted_listCoordinates:
  assumes "listCoordinates content = Inr items"
  shows "counted items"
  using assms counted_yield_enumerated
  by (auto simp add: listCoordinates_def Let_def split: sum.splits)

lemma counted_generateCoordinates:
  assumes "0 \<le> p" and "\<forall>z\<in>set zooms. corners_ordered ul lr z"
  shows "counted (generateCoordinates ul lr zooms p)"
proof -
  have "count_loop ul lr p 0 zooms = int (length (concat (map (flood_tiles ul lr p) zooms)))"
    using length_tiles_total [OF assms] by simp
  then show ?thesis
    unfolding generateCoordinates_eq by (simp only: counted_yield_enumerated)
qed

lemma sample_tile_list:
  "listCoordinates (''12/600/1200'' @ [CHR 0x0A] @ ''12/601/1200'' @ [CHR 0x0A]) =
     Inr [(0, 2, Coordinate 1200 600 12), (1, 2, Coordinate 1200 601 12)]"
  by code_simp

lemma seed_tile_working:
  "\<exists>w'. seed_tile working_backend options jb item w = Some (Finished, w')
     \<and> fetched w' = fetched w @ [snd (snd item)]"
proof -
  obtain offset count coord where item: "item = (offset, count, coord)"
    by (metis prod_cases3)
  have "attempt_run working_backend (layer_name (job_layer jb)) coord (job_extension jb)
          (ignore_cached options) (budget options - 1) (backend w)
        = (1, Inr (''image/png'', replicate 2048 (CHR ''x'')), backend w + 1)"
    by (subst attempt_run.simps) (simp add: working_backend_def)
  then show ?thesis
    unfolding item seed_tile_run by simp
qed

lemma seed_loop_working:
  "\<exists>w'. seed_loop working_backend options jb w items = Some (Finished, w')
     \<and> fetched w' = fetched w @ map (\<lambda>item. snd (snd item)) items"
proof (induction items arbitrary: w)
  case Nil
  show ?case by simp
next
  case (Cons item items)
  obtain w1 where 1: "seed_tile working_backend options jb item w = Some (Finished, w1)"
    and f: "fetched w1 = fetched w @ [snd (snd item)]"
    using seed_tile_working by blast
  from Cons.IH [of w1] obtain w' where
    "seed_loop working_backend options jb w1 items = Some (Finished, w')"
    "fetched w' = fetched w1 @ map (\<lambda>item. snd (snd item)) items"
    by blast
  with 1 f show ?case by simp
qed

lemma sample_stream:
  "generateCoordinates (Coordinate (1 / 4) (1 / 2) 0) (Coordinate (1 / 2) (3 / 4) 0) [2, 3] 0 =
     [(0, 13, Coordinate 1 2 2), (1, 13, Coordinate 1 3 2), (2, 13, Coordinate 2 2 2),
      (3, 13, Coordinate 2 3 2), (4, 13, Coordinate 2 4 3), (5, 13, Coordinate 2 5 3),
      (6, 13, Coordinate 2 6 3), (7, 13, Coordinate 3 4 3), (8, 13, Coordinate 3 5 3),
      (9, 13, Coordinate 3 6 3), (10, 13, Coordinate 4 4 3), (11, 13, Coordinate 4 5 3),
      (12, 13, Coordinate 4 6 3)]"
  by code_simp

lemma sample_coordinates:
  "choose_coordinates (sample_env get_tile) sample_options sample_job =
     Inr (generateCoordinates (Coordinate (1 / 4) (1 / 2) 0) (Coordinate (1 / 2) (3 / 4) 0) [2, 3] 0)"
  by (simp add: choose_coordinates_def sample_options_def sample_job_def truthy_def)

section \<open>The claims\<close>

text \<open>
  Claim C1 against the script. The sample run, a bounding box at zooms 2 and 3, has the
  flood fill yield 13 items, each with the total 13; with a backend that always
  succeeds the run ends normally after the first ten of them, the slice
  \<^verbatim>\<open>list(coordinates)[:10]\<close> having dropped the last three.
\<close>

theorem main_stops_after_ten:
  "choose_coordinates (sample_env working_backend) sample_options sample_job =
     Inr [(0, 13, Coordinate 1 2 2), (1, 13, Coordinate 1 3 2), (2, 13, Coordinate 2 2 2),
          (3, 13, Coordinate 2 3 2), (4, 13, Coordinate 2 4 3), (5, 13, Coordinate 2 5 3),
          (6, 13, Coordinate 2 6 3), (7, 13, Coordinate 3 4 3), (8, 13, Coordinate 3 5 3),
          (9, 13, Coordinate 3 6 3), (10, 13, Coordinate 4 4 3), (11, 13, Coordinate 4 5 3),
          (12, 13, Coordinate 4 6 3)]
   \<and> (\<exists>w'. main (sample_env working_backend) sample_options [''2'', ''3''] sample_world
              = Some (Finished, w')
        \<and> fetched w' =
            [Coordinate 1 2 2, Coordinate 1 3 2, Coordinate 2 2 2, Coordinate 2 3 2,
             Coordinate 2 4 3, Coordinate 2 5 3, Coordinate 2 6 3, Coordinate 3 4 3,
             Coordinate 3 5 3, Coordinate 3 6 3])"
proof -
  have g: "getTile (sample_env working_backend) = working_backend"
    by (simp add: sample_env_def)
  have f: "fetched sample_world = []"
    by (simp add: sample_world_def)
  show ?thesis
    using seed_loop_working [of sample_options sample_job sample_world
        "take 10 (generateCoordinates (Coordinate (1 / 4) (1 / 2) 0)
                    (Coordinate (1 / 2) (3 / 4) 0) [2, 3] 0)"]
    by (simp add: main_def sample_configure sample_coordinates g f sample_stream)
qed

text \<open>
  Claim C2, as amended. For corners given in order (at every requested zoom the tile of
  the north-west corner is neither below nor right of the tile of the south-east
  corner) and a padding \<open>p \<ge> 0\<close>: the flood fill yields the tiles of the zooms in caller
  order, rows ascending outside and columns ascending inside, numbered from 0; every
  item carries the total computed by the first loop from the inputs alone; that total
  is the sum over the zooms of rows times columns; and the number of items yielded is
  that total.
\<close>

theorem flood_fill_total:
  assumes "0 \<le> p" and "\<forall>z\<in>set zooms. corners_ordered ul lr z"
  shows "generateCoordinates ul lr zooms p =
           yield_enumerated 0 (count_loop ul lr p 0 zooms)
             (concat (map (flood_tiles ul lr p) zooms))
         \<and> rat_of_int (count_loop ul lr p 0 zooms) =
             (\<Sum>z\<leftarrow>zooms. rows_span ul lr z p * cols_span ul lr z p)
         \<and> int (length (generateCoordinates ul lr zooms p)) = count_loop ul lr p 0 zooms"
proof -
  have "rat_of_int (count_loop ul lr p 0 zooms) =
          (\<Sum>z\<leftarrow>zooms. rows_span ul lr z p * cols_span ul lr z p)"
    by (induction zooms) (simp_all add: count_loop_eq rat_of_py_int_spans)
  moreover have "int (length (generateCoordinates ul lr zooms p)) = count_loop ul lr p 0 zooms"
    using length_tiles_total [OF assms] by (simp add: generateCoordinates_eq)
  ultimately show ?thesis
    by (simp add: generateCoordinates_eq)
qed

text \<open>The theorem of C2 at two zoom levels with a padding of one tile: 41 items.\<close>

theorem flood_fill_total_witness:
  "(0::int) \<le> 1
   \<and> corners_ordered (Coordinate (1/4) (1/4) 0) (Coordinate (3/4) (3/4) 0) 1
   \<and> corners_ordered (Coordinate (1/4) (1/4) 0) (Coordinate (3/4) (3/4) 0) 2
   \<and> int (length (generateCoordinates (Coordinate (1/4) (1/4) 0) (Coordinate (3/4) (3/4) 0) [1, 2] 1)) = 41"
proof -
  have h0: "(0::int) \<le> 1"
    by simp
  have h: "\<forall>z\<in>set [1, 2]. corners_ordered (Coordinate (1/4) (1/4) 0) (Coordinate (3/4) (3/4) 0) z"
    by code_simp
  have c: "count_loop (Coordinate (1/4) (1/4) 0) (Coordinate (3/4) (3/4) 0) 1 0 [1, 2] = 41"
    by code_simp
  have "int (length (generateCoordinates (Coordinate (1/4) (1/4) 0) (Coordinate (3/4) (3/4) 0) [1, 2] 1))
          = count_loop (Coordinate (1/4) (1/4) 0) (Coordinate (3/4) (3/4) 0) 1 0 [1, 2]"
    using flood_fill_total [OF h0 h] by blast
  with h0 h show ?thesis
    unfolding c by simp
qed

text \<open>
  Claim C2 as stated fails for corners given out of order: the south-west and north-east
  corners at zooms 0 and 2 yield one item, whose total is \<open>-2\<close>.
\<close>

theorem flood_fill_total_counterexample:
  "generateCoordinates (Coordinate (3/4) (1/4) 0) (Coordinate (1/4) (3/4) 0) [0, 2] 0 =
     [(0, - 2, Coordinate 0 0 0)]
   \<and> int (length (generateCoordinates (Coordinate (3/4) (1/4) 0) (Coordinate (1/4) (3/4) 0) [0, 2] 0))
       \<noteq> - 2"
  by code_simp

text \<open>
  Claim C3, as amended. The tileset source and the tile list source yield the offsets
  \<open>0, 1, \<dots>, total - 1\<close> without gap or repeat, with the same total, the number of items,
  in every item. The flood fill yields offsets \<open>0, 1, \<dots>\<close> without gap or repeat and the
  total computed by its first loop in every item; for corners given in order and a
  padding \<open>p \<ge> 0\<close> that total is the number of items.
\<close>

theorem source_offsets:
  "counted (tilesetCoordinates coords)
   \<and> (listCoordinates content = Inr items \<longrightarrow> counted items)
   \<and> numbered_with (count_loop ul lr p 0 zooms) (generateCoordinates ul lr zooms p)
   \<and> (0 \<le> p \<and> (\<forall>z\<in>set zooms. corners_ordered ul lr z) \<longrightarrow>
        counted (generateCoordinates ul lr zooms p))"
proof (intro conjI impI)
  show "counted (tilesetCoordinates coords)"
    by (simp add: tilesetCoordinates_def counted_yield_enumerated)
  show "numbered_with (count_loop ul lr p 0 zooms) (generateCoordinates ul lr zooms p)"
    by (simp add: generateCoordinates_eq numbered_with_yield_enumerated)
next
  assume "listCoordinates content = Inr items"
  then show "counted items"
    by (rule counted_listCoordinates)
next
  assume "0 \<le> p \<and> (\<forall>z\<in>set zooms. corners_ordered ul lr z)"
  then show "counted (generateCoordinates ul lr zooms p)"
    using counted_generateCoordinates by blast
qed

text \<open>
  The theorem of C3 on a tile list of two lines and on the corners of the sample run at
  zooms 2 and 3.
\<close>

theorem source_offsets_witness:
  "listCoordinates (''12/600/1200'' @ [CHR 0x0A] @ ''12/601/1200'' @ [CHR 0x0A]) =
     Inr [(0, 2, Coordinate 1200 600 12), (1, 2, Coordinate 1200 601 12)]
   \<and> counted [(0, 2, Coordinate 1200 600 12 :: int coordinate), (1, 2, Coordinate 1200 601 12)]
   \<and> (0::int) \<le> 0
   \<and> corners_ordered (Coordinate (1 / 4) (1 / 2) 0) (Coordinate (1 / 2) (3 / 4) 0) 2
   \<and> corners_ordered (Coordinate (1 / 4) (1 / 2) 0) (Coordinate (1 / 2) (3 / 4) 0) 3
   \<and> counted (generateCoordinates (Coordinate (1 / 4) (1 / 2) 0) (Coordinate (1 / 2) (3 / 4) 0)
                [2, 3] 0)"
proof -
  have o: "corners_ordered (Coordinate (1 / 4) (1 / 2) 0) (Coordinate (1 / 2) (3 / 4) 0) 2"
    "corners_ordered (Coordinate (1 / 4) (1 / 2) 0) (Coordinate (1 / 2) (3 / 4) 0) 3"
    by code_simp+
  note t = source_offsets [where content = "''12/600/1200'' @ [CHR 0x0A] @ ''12/601/1200'' @ [CHR 0x0A]"
      and items = "[(0, 2, Coordinate 1200 600 12), (1, 2, Coordinate 1200 601 12)]"
      and p = 0 and zooms = "[2, 3]" and ul = "Coordinate (1 / 4) (1 / 2) 0"
      and lr = "Coordinate (1 / 2) (3 / 4) 0"]
  from t sample_tile_list o show ?thesis
    by simp
qed

text \<open>
  Claim C3 as stated fails for corners given out of order: the south-west and north-east
  corners at zooms 0 and 3 yield the one offset 0 with the total \<open>-14\<close>.
\<close>

theorem source_offsets_counterexample:
  "generateCoordinates (Coordinate (3 / 4) (1 / 4) 0) (Coordinate (1 / 4) (3 / 4) 0) [0, 3] 0 =
     [(0, - 14, Coordinate 0 0 0)]
   \<and> \<not> counted (generateCoordinates (Coordinate (3 / 4) (1 / 4) 0) (Coordinate (1 / 4) (3 / 4) 0)
                  [0, 3] 0)"
  by code_simp

text \<open>
  Claim C4. Against a backend that fails whenever it is asked for the tile, the body of
  the loop makes exactly one call without retries and exactly three with retries, and
  then appends the coordinate to the error list and goes on, or fails with the
  backend's error when no error list is configured. Against a backend that fails twice
  and then succeeds, with retries, the item ends rendered after three calls and the
  error list is not written.
\<close>

theorem retry_attempts:
  "((\<forall>b. isl (fst (get_tile b (layer_name (job_layer jb)) coord (job_extension jb)
                      (ignore_cached options)))) \<longrightarrow>
      (\<exists>e w'. seed_tile get_tile (options\<lparr>enable_retries := False\<rparr>) jb (offset, count, coord) w
                 = Some (e, w')
         \<and> fetched w' = fetched w @ [coord]
         \<and> (if truthy (job_error_list jb)
            then e = Finished \<and> error_sink w' = error_sink w @ error_line coord
            else (\<exists>err. e = Failed err) \<and> error_sink w' = error_sink w))
    \<and> (\<exists>e w'. seed_tile get_tile (options\<lparr>enable_retries := True\<rparr>) jb (offset, count, coord) w
                 = Some (e, w')
         \<and> fetched w' = fetched w @ [coord, coord, coord]
         \<and> (if truthy (job_error_list jb)
            then e = Finished \<and> error_sink w' = error_sink w @ error_line coord
            else (\<exists>err. e = Failed err) \<and> error_sink w' = error_sink w)))
   \<and> (flaky (backend w) (layer_name (job_layer jb)) coord (job_extension jb)
            (ignore_cached options) = (Inl e1, b1)
      \<and> flaky b1 (layer_name (job_layer jb)) coord (job_extension jb)
            (ignore_cached options) = (Inl e2, b2)
      \<and> flaky b2 (layer_name (job_layer jb)) coord (job_extension jb)
            (ignore_cached options) = (Inr (mimetype, content), b3) \<longrightarrow>
      (\<exists>w'. seed_tile flaky (options\<lparr>enable_retries := True\<rparr>) jb (offset, count, coord) w
               = Some (Finished, w')
         \<and> fetched w' = fetched w @ [coord, coord, coord]
         \<and> error_sink w' = error_sink w
         \<and> backend w' = b3))"
proof (intro conjI impI)
  assume a: "\<forall>b. isl (fst (get_tile b (layer_name (job_layer jb)) coord (job_extension jb)
                             (ignore_cached options)))"
  have off: "\<forall>b. isl (fst (get_tile b (layer_name (job_layer jb)) coord (job_extension jb)
                             (ignore_cached (options\<lparr>enable_retries := False\<rparr>))))"
    and on: "\<forall>b. isl (fst (get_tile b (layer_name (job_layer jb)) coord (job_extension jb)
                             (ignore_cached (options\<lparr>enable_retries := True\<rparr>))))"
    using a by simp_all
  show "\<exists>e w'. seed_tile get_tile (options\<lparr>enable_retries := False\<rparr>) jb (offset, count, coord) w
                 = Some (e, w')
         \<and> fetched w' = fetched w @ [coord]
         \<and> (if truthy (job_error_list jb)
            then e = Finished \<and> error_sink w' = error_sink w @ error_line coord
            else (\<exists>err. e = Failed err) \<and> error_sink w' = error_sink w)"
    using seed_tile_always_fails
            [where get_tile = get_tile and jb = jb and coord = coord
               and options = "options\<lparr>enable_retries := False\<rparr>", OF off, of offset count w]
    by (simp add: budget_def)
  show "\<exists>e w'. seed_tile get_tile (options\<lparr>enable_retries := True\<rparr>) jb (offset, count, coord) w
                 = Some (e, w')
         \<and> fetched w' = fetched w @ [coord, coord, coord]
         \<and> (if truthy (job_error_list jb)
            then e = Finished \<and> error_sink w' = error_sink w @ error_line coord
            else (\<exists>err. e = Failed err) \<and> error_sink w' = error_sink w)"
    using seed_tile_always_fails
            [where get_tile = get_tile and jb = jb and coord = coord
               and options = "options\<lparr>enable_retries := True\<rparr>", OF on, of offset count w]
    by (simp add: budget_def numeral_3_eq_3)
next
  assume f: "flaky (backend w) (layer_name (job_layer jb)) coord (job_extension jb)
               (ignore_cached options) = (Inl e1, b1)
      \<and> flaky b1 (layer_name (job_layer jb)) coord (job_extension jb)
               (ignore_cached options) = (Inl e2, b2)
      \<and> flaky b2 (layer_name (job_layer jb)) coord (job_extension jb)
               (ignore_cached options) = (Inr (mimetype, content), b3)"
  have "attempt_run flaky (layer_name (job_layer jb)) coord (job_extension jb)
          (ignore_cached options) 2 (backend w) = (3, Inr (mimetype, content), b3)"
    using f by (intro attempt_run_twice_then) blast+
  moreover have "budget (options\<lparr>enable_retries := True\<rparr>) - 1 = 2"
    by (simp add: budget_def)
  moreover have "replicate 3 coord = [coord, coord, coord]"
    by (simp add: numeral_3_eq_3)
  ultimately show "\<exists>w'. seed_tile flaky (options\<lparr>enable_retries := True\<rparr>) jb (offset, count, coord) w
               = Some (Finished, w')
         \<and> fetched w' = fetched w @ [coord, coord, coord]
         \<and> error_sink w' = error_sink w
         \<and> backend w' = b3"
    by (simp add: seed_tile_run)
qed

text \<open>The theorem of C4 on the always failing and the twice failing sample backends.\<close>

theorem retry_attempts_witness:
  "(\<forall>b. isl (fst (failing_backend b ''osm'' (Coordinate 1 2 2) ''png'' False)))
   \<and> flaky_backend 0 ''osm'' (Coordinate 1 2 2) ''png'' False = (Inl (TileError ''no tile''), 1)
   \<and> flaky_backend 1 ''osm'' (Coordinate 1 2 2) ''png'' False = (Inl (TileError ''no tile''), 2)
   \<and> flaky_backend 2 ''osm'' (Coordinate 1 2 2) ''png'' False
       = (Inr (''image/png'', replicate 2048 (CHR ''x'')), 3)
   \<and> (\<exists>e w'. seed_tile failing_backend (sample_options\<lparr>enable_retries := False\<rparr>) sample_job
                (0, 13, Coordinate 1 2 2) sample_world = Some (e, w')
        \<and> fetched w' = [Coordinate 1 2 2]
        \<and> e = Finished \<and> error_sink w' = ''2/2/1'' @ [CHR 0x0A])
   \<and> (\<exists>e w'. seed_tile failing_backend (sample_options\<lparr>enable_retries := True\<rparr>) sample_job
                (0, 13, Coordinate 1 2 2) sample_world = Some (e, w')
        \<and> fetched w' = [Coordinate 1 2 2, Coordinate 1 2 2, Coordinate 1 2 2]
        \<and> e = Finished \<and> error_sink w' = ''2/2/1'' @ [CHR 0x0A])
   \<and> (\<exists>w'. seed_tile flaky_backend (sample_options\<lparr>enable_retries := True\<rparr>) sample_job
              (0, 13, Coordinate 1 2 2) sample_world = Some (Finished, w')
        \<and> fetched w' = [Coordinate 1 2 2, Coordinate 1 2 2, Coordinate 1 2 2]
        \<and> error_sink w' = []
        \<and> backend w' = 3)"
proof -
  have names: "layer_name (job_layer sample_job) = ''osm''" "job_extension sample_job = ''png''"
    "ignore_cached sample_options = False" "truthy (job_error_list sample_job)"
    "backend sample_world = 0" "fetched sample_world = []" "error_sink sample_world = []"
    by (simp_all add: sample_job_def sample_options_def sample_world_def truthy_def)
  have fails: "\<forall>b. isl (fst (failing_backend b ''osm'' (Coordinate 1 2 2) ''png'' False))"
    by (simp add: failing_backend_def)
  have flaky: "flaky_backend 0 ''osm'' (Coordinate 1 2 2) ''png'' False = (Inl (TileError ''no tile''), 1)"
    "flaky_backend 1 ''osm'' (Coordinate 1 2 2) ''png'' False = (Inl (TileError ''no tile''), 2)"
    "flaky_backend 2 ''osm'' (Coordinate 1 2 2) ''png'' False
       = (Inr (''image/png'', replicate 2048 (CHR ''x'')), 3)"
    by (simp_all add: flaky_backend_def)
  note t = retry_attempts [of failing_backend sample_job "Coordinate 1 2 2" sample_options 0 13
      sample_world flaky_backend "TileError ''no tile''" 1 "TileError ''no tile''" 2
      "''image/png''" "replicate 2048 (CHR ''x'')" 3, unfolded names error_line_sample]
  from t fails flaky show ?thesis
    by (simp only: names simp_thms if_True append_Nil)
qed

text \<open>
  Claim C5. When every attempt of the budget of an item fails: with an error list
  configured, the line \<open>zoom/column/row\<close> of the coordinate, ended by a line feed, is
  appended to the error list once and the run goes on with the next item; without one,
  the run fails with the error of the last attempt, and no call of the backend is made
  for any later item.
\<close>

theorem exhausted_item:
  "attempt_run get_tile (layer_name (job_layer jb)) coord (job_extension jb)
     (ignore_cached options) (budget options - 1) (backend w) = (k, Inl e, b') \<longrightarrow>
   (if truthy (job_error_list jb)
    then \<exists>w1. seed_loop get_tile options jb w ((offset, count, coord) # items)
                 = seed_loop get_tile options jb w1 items
            \<and> error_sink w1 =
                error_sink w @ str_int (zoom coord) @ ''/'' @ str_int (column coord) @ ''/''
                  @ str_int (row coord) @ [CHR 0x0A]
            \<and> fetched w1 = fetched w @ replicate (budget options) coord
            \<and> backend w1 = b'
    else seed_loop get_tile options jb w ((offset, count, coord) # items)
           = Some (Failed e, w\<lparr>backend := b', fetched := fetched w @ replicate (budget options) coord\<rparr>))"
proof
  assume run: "attempt_run get_tile (layer_name (job_layer jb)) coord (job_extension jb)
     (ignore_cached options) (budget options - 1) (backend w) = (k, Inl e, b')"
  have k: "k = budget options"
    using attempt_run_count [OF run] by (simp add: budget_def split: if_splits)
  show "if truthy (job_error_list jb)
    then \<exists>w1. seed_loop get_tile options jb w ((offset, count, coord) # items)
                 = seed_loop get_tile options jb w1 items
            \<and> error_sink w1 =
                error_sink w @ str_int (zoom coord) @ ''/'' @ str_int (column coord) @ ''/''
                  @ str_int (row coord) @ [CHR 0x0A]
            \<and> fetched w1 = fetched w @ replicate (budget options) coord
            \<and> backend w1 = b'
    else seed_loop get_tile options jb w ((offset, count, coord) # items)
           = Some (Failed e, w\<lparr>backend := b', fetched := fetched w @ replicate (budget options) coord\<rparr>)"
    using run k by (auto simp add: seed_tile_run error_line_def)
qed

text \<open>
  The theorem of C5 on the always failing sample backend, with retries: with the error
  list, and without it.
\<close>

theorem exhausted_item_witness:
  "attempt_run failing_backend ''osm'' (Coordinate 1 2 2) ''png'' False 2 0
     = (3, Inl (TileError ''no tile''), 3)
   \<and> (\<exists>w1. seed_loop failing_backend sample_options sample_job sample_world
              [(0, 13, Coordinate 1 2 2), (1, 13, Coordinate 1 3 2)]
            = seed_loop failing_backend sample_options sample_job w1 [(1, 13, Coordinate 1 3 2)]
        \<and> error_sink w1 = ''2/2/1'' @ [CHR 0x0A]
        \<and> fetched w1 = [Coordinate 1 2 2, Coordinate 1 2 2, Coordinate 1 2 2]
        \<and> backend w1 = 3)
   \<and> seed_loop failing_backend sample_options (sample_job\<lparr>job_error_list := None\<rparr>) sample_world
        [(0, 13, Coordinate 1 2 2), (1, 13, Coordinate 1 3 2)]
      = Some (Failed (TileError ''no tile''),
              sample_world\<lparr>backend := 3,
                            fetched := [Coordinate 1 2 2, Coordinate 1 2 2, Coordinate 1 2 2]\<rparr>)"
proof -
  have names: "layer_name (job_layer sample_job) = ''osm''" "job_extension sample_job = ''png''"
    "ignore_cached sample_options = False" "truthy (job_error_list sample_job)"
    "backend sample_world = 0" "fetched sample_world = []" "error_sink sample_world = []"
    "budget sample_options = 3" "(3::nat) - 1 = 2"
    "layer_name (job_layer (sample_job\<lparr>job_error_list := None\<rparr>)) = ''osm''"
    "job_extension (sample_job\<lparr>job_error_list := None\<rparr>) = ''png''"
    "\<not> truthy (job_error_list (sample_job\<lparr>job_error_list := None\<rparr>))"
    "replicate 3 (Coordinate 1 2 2) = [Coordinate 1 2 2, Coordinate 1 2 2, Coordinate 1 2 2]"
    "str_int 1 = ''1''" "str_int 2 = ''2''"
    by (simp_all add: sample_job_def sample_options_def sample_world_def truthy_def budget_def
          numeral_3_eq_3 str_int_def str_nat.simps digit_char_def)
  have run: "attempt_run failing_backend ''osm'' (Coordinate 1 2 2) ''png'' False 2 0
     = (3, Inl (TileError ''no tile''), 3)"
    by (simp add: attempt_run.simps failing_backend_def numeral_2_eq_2)
  note a = exhausted_item [of failing_backend sample_job "Coordinate 1 2 2" sample_options
      sample_world 3 "TileError ''no tile''" 3 0 13 "[(1, 13, Coordinate 1 3 2)]"]
  note b = exhausted_item [of failing_backend "sample_job\<lparr>job_error_list := None\<rparr>"
      "Coordinate 1 2 2" sample_options
      sample_world 3 "TileError ''no tile''" 3 0 13 "[(1, 13, Coordinate 1 3 2)]"]
  from a b run show ?thesis
    by (simp only: names simp_thms if_True if_False append_Nil coordinate.sel append.simps)
qed

text \<open>
  Claim C6. A tile list whose lines are the triples \<open>zoom/column/row\<close> of a list of
  coordinates, each ended by a line feed, is read back as those coordinates in the order
  of the file, numbered from 0, with the number of lines as the total of every item.
  Such are the lines the seeding loop appends to its error list.
\<close>

theorem tile_list_round_trip:
  "listCoordinates
     (concat (map (\<lambda>coord. str_int (zoom coord) @ ''/'' @ str_int (column coord) @ ''/''
                           @ str_int (row coord) @ [CHR 0x0A]) coords))
   = Inr (yield_enumerated 0 (int (length coords)) coords)
   \<and> listCoordinates (''12/600/1200'' @ [CHR 0x0A] @ ''12/601/1200'' @ [CHR 0x0A])
     = Inr [(0, 2, Coordinate 1200 600 12), (1, 2, Coordinate 1200 601 12)]"
proof -
  have "(\<lambda>coord. str_int (zoom coord) @ ''/'' @ str_int (column coord) @ ''/''
                           @ str_int (row coord) @ [CHR 0x0A]) = error_line"
    by (simp add: error_line_def fun_eq_iff)
  then show ?thesis
    by (simp only: sample_tile_list simp_thms)
       (simp add: listCoordinates_def file_lines_def file_lines_error_lines parse_error_lines)
qed





text \<open>
  Claim C9. With a progress file configured, once the loop of an item is over the file
  holds one dictionary, whatever it held before: \<open>tile\<close> is
  \<open>layer/zoom/column/row.extension\<close>, \<open>offset\<close> is the offset of the item plus one,
  \<open>total\<close> is the total the item carries, and \<open>size\<close>, the length of the content in
  whole kilobytes followed by \<open>KB\<close>, is there when the tile was fetched and only then. An
  item that fails without an error list ends the run before the file is written.
\<close>

theorem progress_snapshot:
  "truthy (progressfile options) \<longrightarrow>
   (case attempt_run get_tile (layer_name (job_layer jb)) coord (job_extension jb)
           (ignore_cached options) (budget options - 1) (backend w) of
      (k, Inr (mimetype, content), b') \<Rightarrow>
        \<exists>w'. seed_tile get_tile options jb (offset, count, coord) w = Some (Finished, w')
          \<and> progress_file w' =
              Some [''tile'' \<mapsto> PyStr (layer_name (job_layer jb) @ ''/'' @ str_int (zoom coord)
                                         @ ''/'' @ str_int (column coord) @ ''/''
                                         @ str_int (row coord) @ ''.'' @ job_extension jb),
                    ''offset'' \<mapsto> PyInt (offset + 1),
                    ''total'' \<mapsto> PyInt count,
                    ''size'' \<mapsto> PyStr (str_int (int (length content) div 1024) @ ''KB'')]
    | (k, Inl e, b') \<Rightarrow>
        if truthy (job_error_list jb)
        then \<exists>w'. seed_tile get_tile options jb (offset, count, coord) w = Some (Finished, w')
               \<and> progress_file w' =
                   Some [''tile'' \<mapsto> PyStr (layer_name (job_layer jb) @ ''/''
                                              @ str_int (zoom coord) @ ''/''
                                              @ str_int (column coord) @ ''/''
                                              @ str_int (row coord) @ ''.'' @ job_extension jb),
                         ''offset'' \<mapsto> PyInt (offset + 1),
                         ''total'' \<mapsto> PyInt count]
               \<and> the (progress_file w') ''size'' = None
        else \<exists>w'. seed_tile get_tile options jb (offset, count, coord) w = Some (Failed e, w')
               \<and> progress_file w' = progress_file w)"
  by (auto simp add: seed_tile_run tile_path_def split: prod.splits sum.splits)

text \<open>
  The theorem of C9 on the third of five items, with the twice failing sample backend
  (a tile of 2048 bytes) and with the always failing one.
\<close>

theorem progress_snapshot_witness:
  "truthy (progressfile sample_options)
   \<and> (\<exists>w'. seed_tile flaky_backend sample_options sample_job (2, 5, Coordinate 1 2 2) sample_world
              = Some (Finished, w')
        \<and> progress_file w' =
            Some [''tile'' \<mapsto> PyStr ''osm/2/2/1.png'', ''offset'' \<mapsto> PyInt 3,
                  ''total'' \<mapsto> PyInt 5, ''size'' \<mapsto> PyStr ''2KB''])
   \<and> (\<exists>w'. seed_tile failing_backend sample_options sample_job (2, 5, Coordinate 1 2 2) sample_world
              = Some (Finished, w')
        \<and> progress_file w' =
            Some [''tile'' \<mapsto> PyStr ''osm/2/2/1.png'', ''offset'' \<mapsto> PyInt 3,
                  ''total'' \<mapsto> PyInt 5]
        \<and> the (progress_file w') ''size'' = None)"
proof -
  have names: "layer_name (job_layer sample_job) = ''osm''" "job_extension sample_job = ''png''"
    "ignore_cached sample_options = False" "truthy (job_error_list sample_job)"
    "truthy (progressfile sample_options)"
    "backend sample_world = 0" 
    "budget sample_options - 1 = 2"
    "str_int 1 = ''1''" "str_int 2 = ''2''"
    "str_int (int (length (replicate 2048 (CHR ''x''))) div 1024) = ''2''"
    "(2::int) + 1 = 3"
    by (simp_all add: sample_job_def sample_options_def sample_world_def truthy_def budget_def
          str_int_def str_nat.simps digit_char_def)
  have run: "attempt_run failing_backend ''osm'' (Coordinate 1 2 2) ''png'' False 2 0
               = (3, Inl (TileError ''no tile''), 3)"
    "attempt_run flaky_backend ''osm'' (Coordinate 1 2 2) ''png'' False 2 0
               = (3, Inr (''image/png'', replicate 2048 (CHR ''x'')), 3)"
    by (simp_all add: attempt_run.simps failing_backend_def flaky_backend_def numeral_2_eq_2)
  note a = progress_snapshot [where options = sample_options and get_tile = flaky_backend
      and jb = sample_job and coord = "Coordinate 1 2 2" and w = sample_world and offset = 2
      and count = 5]
  note b = progress_snapshot [where options = sample_options and get_tile = failing_backend
      and jb = sample_job and coord = "Coordinate 1 2 2" and w = sample_world and offset = 2
      and count = 5]
  from a b show ?thesis
    by (simp only: names run simp_thms if_True prod.case sum.case coordinate.sel append.simps)
qed

text \<open>
  Claim C10. Whatever the backend does, the loop of an item ends, after at least one and
  at most as many calls as the attempt budget allows (three with retries, one without):
  it ends rendered, or else with the budget used up, by \<^verbatim>\<open>break\<close> when an error list
  is configured and by raising otherwise. The run over a list of items ends as well, and
  its calls of the backend are one block of at most that many calls per item, in the
  order of the items: the loop is not entered again for an item.
\<close>

theorem fetch_loop_terminates:
  "(\<exists>ex pr w' k.
      fetch_loop get_tile options jb coord (if enable_retries options then 3 else 1) progress w
        = Some (ex, pr, w')
      \<and> 1 \<le> k \<and> k \<le> budget options
      \<and> fetched w' = fetched w @ replicate k coord
      \<and> (ex = Rendered
         \<or> k = budget options
           \<and> (if truthy (job_error_list jb) then ex = Break else \<exists>e. ex = Raised e)))
   \<and> (\<exists>e w' ks. seed_loop get_tile options jb w items = Some (e, w')
      \<and> length ks \<le> length items
      \<and> list_all (\<lambda>k. 1 \<le> k \<and> k \<le> budget options) ks
      \<and> fetched w' =
          fetched w @ concat (map (\<lambda>(k, item). replicate k (snd (snd item))) (zip ks items)))"
  using fetch_loop_ends seed_loop_ends by blast

end
